theory Spec2Isabelle
  imports Main
begin

section \<open>JavaScript values\<close>

text \<open>
  An exception object: \<^verbatim>\<open>error.name\<close> and \<^verbatim>\<open>error.message\<close>.
  \<^verbatim>\<open>new Error('Agent not found')\<close> is \<open>JsError ''Error'' ''Agent not found''\<close>.
  A promise that settles is its outcome \<open>js_error + 'a\<close>: \<open>Inl\<close> a rejection,
  \<open>Inr\<close> the value it resolves to.
\<close>

datatype js_error = JsError (name: string) (message: string)

text \<open>
  The values \<^verbatim>\<open>JSON.parse\<close> produces and \<^verbatim>\<open>JSON.stringify\<close> consumes. An object is
  the list of its own properties in insertion order. A string is the UTF-8 encoding
  of the text. A number is an IEEE double, and it is carried as the text that
  \<^verbatim>\<open>Number::toString\<close> gives for it (\<^verbatim>\<open>5\<close>, \<^verbatim>\<open>1.5\<close>, \<^verbatim>\<open>1e+21\<close>, \<^verbatim>\<open>-Infinity\<close>): that
  text is all the code observes of a number, and both zeros have the text \<^verbatim>\<open>0\<close>.
\<close>

datatype json =
    JNull
  | JBool bool
  | JNum string
  | JStr string
  | JArr "json list"
  | JObj "(string \<times> json) list"

subsection \<open>\<^verbatim>\<open>JSON.stringify\<close>\<close>

definition hex_digit :: "nat \<Rightarrow> char" where
  "hex_digit n = ''0123456789abcdef'' ! (n mod 16)"

text \<open>ECMAScript \<^verbatim>\<open>UnicodeEscape\<close>: a backslash, \<^verbatim>\<open>u\<close> and four lower-case hex digits.\<close>

definition UnicodeEscape :: "char \<Rightarrow> string" where
  "UnicodeEscape c =
     [CHR 0x5C, CHR ''u'', CHR ''0'', CHR ''0'',
      hex_digit (of_char c div 16), hex_digit (of_char c mod 16)]"

text \<open>
  One code unit of ECMAScript \<^verbatim>\<open>QuoteJSONString\<close>: the seven two-character escapes,
  \<^verbatim>\<open>UnicodeEscape\<close> for the other control characters, the character itself otherwise.
\<close>

definition quote_char :: "char \<Rightarrow> string" where
  "quote_char c =
     (if c = CHR 0x08 then [CHR 0x5C, CHR ''b'']
      else if c = CHR 0x09 then [CHR 0x5C, CHR ''t'']
      else if c = CHR 0x0A then [CHR 0x5C, CHR ''n'']
      else if c = CHR 0x0C then [CHR 0x5C, CHR ''f'']
      else if c = CHR 0x0D then [CHR 0x5C, CHR ''r'']
      else if c = CHR 0x22 then [CHR 0x5C, CHR 0x22]
      else if c = CHR 0x5C then [CHR 0x5C, CHR 0x5C]
      else if (of_char c :: nat) < 0x20 then UnicodeEscape c
      else [c])"

definition QuoteJSONString :: "string \<Rightarrow> string" where
  "QuoteJSONString s = CHR 0x22 # concat (map quote_char s) @ [CHR 0x22]"

text \<open>The decimal digits of a count, as a template literal prints it.\<close>

definition digit :: "nat \<Rightarrow> char" where
  "digit n = ''0123456789'' ! (n mod 10)"

fun digits :: "nat \<Rightarrow> string" where
  "digits n = (if n < 10 then [digit n] else digits (n div 10) @ [digit (n mod 10)])"

declare digits.simps [simp del]

fun join :: "string \<Rightarrow> string list \<Rightarrow> string" where
  "join sep [] = []"
| "join sep [x] = x"
| "join sep (x # y # ys) = x @ sep @ join sep (y # ys)"

text \<open>
  Modelled from the spec: the codec's \<^verbatim>\<open>encode\<close> produces a JSON string; in the
  repository it is the built-in \<^verbatim>\<open>JSON.stringify(value)\<close> with no replacer and no
  indentation: no white space between tokens, the properties of an object in order, a
  number that is not finite as \<^verbatim>\<open>null\<close>.
\<close>

fun JSON_stringify :: "json \<Rightarrow> string" where
  "JSON_stringify JNull = ''null''"
| "JSON_stringify (JBool b) = (if b then ''true'' else ''false'')"
| "JSON_stringify (JNum n) =
     (if n = ''Infinity'' \<or> n = ''-Infinity'' \<or> n = ''NaN'' then ''null'' else n)"
| "JSON_stringify (JStr s) = QuoteJSONString s"
| "JSON_stringify (JArr vs) = ''['' @ join '','' (map JSON_stringify vs) @ '']''"
| "JSON_stringify (JObj kvs) =
     ''{'' @ join '',''
        (map (\<lambda>kv. QuoteJSONString (fst kv) @ '':'' @ JSON_stringify (snd kv)) kvs) @ ''}''"

section \<open>The session: \<^verbatim>\<open>Room\<close>, its participants and its transport\<close>

record participant =
  identity :: string
  isAgent :: bool

text \<open>
  The argument of an inbound handler (\<^verbatim>\<open>RpcInvocationData\<close>). The handler guards
  \<^verbatim>\<open>data.payload\<close> with \<^verbatim>\<open>??\<close>, so the payload may be absent.
\<close>

record rpc_invocation_data =
  callerIdentity :: string
  payload :: "string option"

text \<open>The argument of \<^verbatim>\<open>performRpc\<close>.\<close>

record rpc_params =
  destinationIdentity :: string
  "method" :: string
  payload :: string

text \<open>
  \<^verbatim>\<open>room.localParticipant.performRpc\<close> is the transport, which is not part of the
  repository: it is a parameter, a function from the call to the outcome of the promise
  it returns (the reply string, or the rejection).
\<close>

record local_participant =
  performRpc :: "rpc_params \<Rightarrow> js_error + string"

text \<open>
  What the code reads of a \<^verbatim>\<open>Room\<close> at one moment. \<^verbatim>\<open>remoteParticipants\<close> is a
  \<^verbatim>\<open>Map\<close> from identity to participant; \<^verbatim>\<open>values()\<close> enumerates it in insertion
  order, so it is an association list.
\<close>

record room =
  state :: string
  remoteParticipants :: "(string \<times> participant) list"
  localParticipant :: local_participant

definition map_values :: "('k \<times> 'v) list \<Rightarrow> 'v list" where
  "map_values m = map snd m"

text \<open>A node of the page, as \<^verbatim>\<open>document.querySelector\<close> returns it.\<close>

datatype element = HTMLElement nat

text \<open>What a function does besides returning: the calls it makes, in order.\<close>

datatype console_arg = Str string | Num nat | Err js_error | Dat rpc_invocation_data

datatype event =
    RemoteParticipantsValues
  | ConsoleLog "console_arg list"
  | ConsoleWarn "console_arg list"
  | ConsoleError "console_arg list"
  | SetTimeout nat
  | PerformRpc rpc_params
  | QuerySelector string
  | Click element

section \<open>\<^verbatim>\<open>rpc/rpc-client.ts\<close>\<close>

text \<open>
  \<^verbatim>\<open>Array.from(room.remoteParticipants.values()).find((p) => p.isAgent) || null\<close>.
  \<^verbatim>\<open>Array.prototype.find\<close> is \<^const>\<open>find\<close>; both \<^verbatim>\<open>undefined\<close> and \<^verbatim>\<open>null\<close> are
  \<open>None\<close>.
\<close>

definition findAgent :: "room \<Rightarrow> participant option" where
  "findAgent room = find isAgent (map_values (remoteParticipants room))"

text \<open>
  \<^verbatim>\<open>sendDomElements(room, payload)\<close>: the outcome of the promise it returns and the
  calls it made.
\<close>

definition sendDomElements :: "room \<Rightarrow> string \<Rightarrow> (js_error + string) \<times> event list" where
  "sendDomElements room payload' =
     (case findAgent room of
        None \<Rightarrow> (Inl (JsError ''Error'' ''Agent not found''), [RemoteParticipantsValues])
      | Some agent \<Rightarrow>
          (let params = \<lparr>destinationIdentity = identity agent, method = ''dom_elements'',
                         payload = JSON_stringify (JStr payload')\<rparr>
           in (performRpc (localParticipant room) params,
               [RemoteParticipantsValues, PerformRpc params])))"


section \<open>\<^verbatim>\<open>agent-client.tsx\<close>: \<^verbatim>\<open>sendData\<close>\<close>

text \<open>
  The \<^verbatim>\<open>Room\<close> is one mutable object that the session changes while \<^verbatim>\<open>sendData\<close>
  waits, so the argument is the room over time: \<open>room i\<close> is what the \<open>i\<close>-th
  invocation of \<^verbatim>\<open>sendData\<close> in a chain of retries reads (the state check and the
  roster scan of one invocation have no \<^verbatim>\<open>await\<close> between them). The recursion of the
  source is not bounded by anything the function computes, so the function is partial:
  \<open>None\<close> is a chain of retries that never ends. A result is the outcome of the
  promise and the calls made so far.
\<close>

partial_function (option) sendData ::
  "(nat \<Rightarrow> room) \<Rightarrow> nat \<Rightarrow> event list \<Rightarrow> ((js_error + unit) \<times> event list) option"
where
  "sendData room i tr =
     (if state (room i) \<noteq> ''connected'' then Some (Inr (), tr)
      else
        let agent = find isAgent (map_values (remoteParticipants (room i)));
            tr = tr @ [RemoteParticipantsValues];
            retryCount = 0 :: nat;
            maxRetries = 3 :: nat;
            retryDelay = 2000 :: nat;
            actualRetryDelay = retryDelay * (retryCount + 1)
        in (case agent of
              None \<Rightarrow>
                if retryCount < maxRetries then
                  sendData room (Suc i)
                    (tr @ [ConsoleLog
                             [Str (''[DOM ELEMENTS RPC] Agent not found yet, retrying in ''
                                   @ digits (actualRetryDelay div 1000) @ ''s (attempt ''
                                   @ digits (retryCount + 1) @ ''/'' @ digits maxRetries @ '')'')],
                           SetTimeout actualRetryDelay])
                else
                  Some (Inr (),
                        tr @ [ConsoleWarn
                                [Str ''[DOM ELEMENTS RPC] Agent not found in remote participants after'',
                                 Num maxRetries, Str ''retries'']])
            | Some agent \<Rightarrow>
                (let params =
                       \<lparr>destinationIdentity = identity agent, method = ''dom_elements'',
                        payload =
                          JSON_stringify (JObj [(''message'', JStr ''important data!'')])\<rparr>
                 in (case performRpc (localParticipant (room i)) params of
                       Inr response \<Rightarrow>
                         Some (Inr (),
                               tr @ [PerformRpc params,
                                     ConsoleLog [Str ''RPC response:'', Str response]])
                     | Inl error \<Rightarrow>
                         Some (Inr (),
                               tr @ [PerformRpc params,
                                     ConsoleError [Str ''RPC call failed:'', Err error]])))))"

section \<open>The inbound handlers: \<^verbatim>\<open>registerClientRpcHandlers\<close>\<close>

text \<open>
  What the handlers use of the browser, none of it code of the repository:
  \<^verbatim>\<open>JSON.parse\<close>, which returns the value or throws a \<^verbatim>\<open>SyntaxError\<close>, and
  \<^verbatim>\<open>document.querySelector\<close>, which returns the first matching element, \<^verbatim>\<open>null\<close>, or
  throws on a selector that is not valid.
\<close>

record browser =
  JSON_parse :: "string \<Rightarrow> js_error + json"
  querySelector :: "string \<Rightarrow> js_error + element option"

text \<open>
  \<^verbatim>\<open>payload.jsId\<close>: reading a property of \<^verbatim>\<open>null\<close> throws a \<^verbatim>\<open>TypeError\<close> (the text of
  the message is V8's); an object yields its own property; strings, numbers, booleans
  and arrays have no such property. \<open>None\<close> is \<^verbatim>\<open>undefined\<close>.
\<close>

definition reading_null :: "string \<Rightarrow> js_error" where
  "reading_null key =
     JsError ''TypeError''
       (''Cannot read properties of null (reading '' @ [CHR 0x27] @ key @ [CHR 0x27] @ '')'')"

definition payload_jsId :: "json \<Rightarrow> js_error + json option" where
  "payload_jsId payload' =
     (case payload' of
        JNull \<Rightarrow> Inl (reading_null ''jsId'')
      | JObj kvs \<Rightarrow> Inr (map_of kvs ''jsId'')
      | _ \<Rightarrow> Inr None)"

text \<open>\<^verbatim>\<open>!jsId\<close> is \<open>\<not> ToBoolean jsId\<close>.\<close>

fun ToBoolean :: "json option \<Rightarrow> bool" where
  "ToBoolean None = False"
| "ToBoolean (Some JNull) = False"
| "ToBoolean (Some (JBool b)) = b"
| "ToBoolean (Some (JNum n)) = (n \<noteq> ''0'' \<and> n \<noteq> ''NaN'')"
| "ToBoolean (Some (JStr s)) = (s \<noteq> [])"
| "ToBoolean (Some (JArr vs)) = True"
| "ToBoolean (Some (JObj kvs)) = True"

text \<open>The results of the conversions of a list, up to the first one that throws.\<close>

fun collect :: "(js_error + string) list \<Rightarrow> js_error + string list" where
  "collect [] = Inr []"
| "collect (r # rs) =
     (case r of
        Inl thrown \<Rightarrow> Inl thrown
      | Inr s \<Rightarrow> (case collect rs of Inl thrown \<Rightarrow> Inl thrown | Inr ss \<Rightarrow> Inr (s # ss)))"

text \<open>
  The conversion a template literal applies to an interpolated value. An array joins its
  elements with commas, \<^verbatim>\<open>null\<close> as the empty string; an object is
  \<^verbatim>\<open>[object Object]\<close>, unless an own property \<^verbatim>\<open>toString\<close> (which is not callable, coming
  from JSON) hides the inherited method, and then the conversion throws.
\<close>

fun ToString :: "json \<Rightarrow> js_error + string" where
  "ToString JNull = Inr ''null''"
| "ToString (JBool b) = Inr (if b then ''true'' else ''false'')"
| "ToString (JNum n) = Inr n"
| "ToString (JStr s) = Inr s"
| "ToString (JArr vs) =
     (case collect (map (\<lambda>v. if v = JNull then Inr [] else ToString v) vs) of
        Inl e \<Rightarrow> Inl e
      | Inr ss \<Rightarrow> Inr (join '','' ss))"
| "ToString (JObj kvs) =
     (if ''toString'' \<in> fst ` set kvs
      then Inl (JsError ''TypeError'' ''Cannot convert object to primitive value'')
      else Inr ''[object Object]'')"

text \<open>
  The body of the \<^verbatim>\<open>try\<close> block of the \<^verbatim>\<open>client.click_button\<close> handler: \<open>Inl\<close> is
  the exception that leaves the block.
\<close>

definition click_button_try ::
  "browser \<Rightarrow> rpc_invocation_data \<Rightarrow> (js_error + string) \<times> event list"
where
  \<open>click_button_try browser data =
     (case JSON_parse browser
             (case rpc_invocation_data.payload data of None \<Rightarrow> ''{}'' | Some s \<Rightarrow> s) of
        Inl err \<Rightarrow> (Inl err, [])
      | Inr payload' \<Rightarrow>
          (case payload_jsId payload' of
             Inl err \<Rightarrow> (Inl err, [])
           | Inr jsId \<Rightarrow>
               if \<not> ToBoolean jsId then
                 (Inr (JSON_stringify
                         (JObj [(''ok'', JBool False), (''error'', JStr ''Missing jsId'')])),
                  [ConsoleWarn [Str ''client.clickElement RPC missing jsId'']])
               else
                 (case (case jsId of None \<Rightarrow> Inr ''undefined'' | Some v \<Rightarrow> ToString v) of
                    Inl err \<Rightarrow> (Inl err, [])
                  | Inr s \<Rightarrow>
                      (let selector = ''[data-js-id="'' @ s @ ''"]'' in
                       case querySelector browser selector of
                         Inl err \<Rightarrow> (Inl err, [QuerySelector selector])
                       | Inr None \<Rightarrow>
                           (Inr (JSON_stringify
                                   (JObj [(''ok'', JBool False),
                                          (''error'', JStr ''Element not found'')])),
                            [QuerySelector selector,
                             ConsoleWarn
                               [Str (''Element not found for selector: '' @ selector)]])
                       | Inr (Some el) \<Rightarrow>
                           (Inr (JSON_stringify (JObj [(''ok'', JBool True)])),
                            [QuerySelector selector, Click el])))))\<close>

text \<open>The handler: the \<^verbatim>\<open>try\<close> block and its \<^verbatim>\<open>catch\<close>.\<close>

definition click_button ::
  "browser \<Rightarrow> rpc_invocation_data \<Rightarrow> (js_error + string) \<times> event list"
where
  "click_button browser data =
     (case click_button_try browser data of
        (Inr reply, evs) \<Rightarrow> (Inr reply, evs)
      | (Inl error, evs) \<Rightarrow>
          (Inr (JSON_stringify
                  (JObj [(''ok'', JBool False), (''error'', JStr (message error))])),
           evs @ [ConsoleError [Str ''client.clickElement handler error:'', Err error]]))"

text \<open>The \<^verbatim>\<open>client.greet\<close> handler. The arrow of its log line is U+2192.\<close>

definition greet ::
  "browser \<Rightarrow> rpc_invocation_data \<Rightarrow> (js_error + string) \<times> event list"
where
  "greet browser data =
     (Inr (''Hello '' @ callerIdentity data @ ''!''),
      [ConsoleLog [Str (''[RPC] greet '' @ [CHR 0xE2, CHR 0x86, CHR 0x92]), Dat data]])"

text \<open>
  \<^verbatim>\<open>registerClientRpcHandlers\<close> binds two method names; the transport calls the handler
  bound to the method of an inbound call.
\<close>

definition registerClientRpcHandlers ::
  "(string \<times> (browser \<Rightarrow> rpc_invocation_data \<Rightarrow> (js_error + string) \<times> event list)) list"
where
  "registerClientRpcHandlers =
     [(''client.click_button'', click_button), (''client.greet'', greet)]"

section \<open>Sessions and calls used as examples\<close>

definition replying :: local_participant where
  "replying = \<lparr>performRpc = (\<lambda>p. Inr ''received'')\<rparr>"


definition peer_A :: participant where
  "peer_A = \<lparr>identity = ''visitor-7'', isAgent = False\<rparr>"

definition peer_B :: participant where
  "peer_B = \<lparr>identity = ''agent-1'', isAgent = True\<rparr>"

text \<open>Connected, with no agent in the roster.\<close>

definition waiting_room :: room where
  "waiting_room =
     \<lparr>state = ''connected'', remoteParticipants = [(''visitor-7'', peer_A)],
      localParticipant = replying\<rparr>"

text \<open>Connected, the roster of the scenario: peer A, then the agent B.\<close>

definition agent_room :: room where
  "agent_room =
     \<lparr>state = ''connected'',
      remoteParticipants = [(''visitor-7'', peer_A), (''agent-1'', peer_B)],
      localParticipant = replying\<rparr>"


definition closed_room :: room where
  "closed_room =
     \<lparr>state = ''disconnected'', remoteParticipants = [], localParticipant = replying\<rparr>"

text \<open>The room over time: what each invocation of a chain of retries reads.\<close>

definition never_agent :: "nat \<Rightarrow> room" where
  "never_agent i = waiting_room"

definition agent_joins_second :: "nat \<Rightarrow> room" where
  "agent_joins_second i = (if i = 0 then waiting_room else agent_room)"

definition agent_joins_third :: "nat \<Rightarrow> room" where
  "agent_joins_third i = (if i < 2 then waiting_room else agent_room)"

definition closes_second :: "nat \<Rightarrow> room" where
  "closes_second i = (if i = 0 then waiting_room else closed_room)"

definition always_closed :: "nat \<Rightarrow> room" where
  "always_closed i = closed_room"


definition always_agent :: "nat \<Rightarrow> room" where
  "always_agent i = agent_room"

definition agent_joins_sixth :: "nat \<Rightarrow> room" where
  "agent_joins_sixth i = (if i < 5 then waiting_room else agent_room)"

text \<open>
  What one failed resolution attempt of \<^verbatim>\<open>sendData\<close> does before it calls itself
  again: the roster scan, the log line and the wait.
\<close>

definition retry_events :: "event list" where
  "retry_events =
     [RemoteParticipantsValues,
      ConsoleLog [Str ''[DOM ELEMENTS RPC] Agent not found yet, retrying in 2s (attempt 1/3)''],
      SetTimeout 2000]"

text \<open>The call \<^verbatim>\<open>sendData\<close> issues to an agent, with the payload written out.\<close>

definition sendData_params :: "participant \<Rightarrow> rpc_params" where
  \<open>sendData_params agent =
     \<lparr>destinationIdentity = identity agent, method = ''dom_elements'',
      payload = ''{"message":"important data!"}''\<rparr>\<close>

text \<open>The calls of \<^verbatim>\<open>sendDomElements\<close> and \<^verbatim>\<open>callAgentAction\<close> to an agent.\<close>

definition dom_elements_params :: "participant \<Rightarrow> string \<Rightarrow> rpc_params" where
  "dom_elements_params agent payload' =
     \<lparr>destinationIdentity = identity agent, method = ''dom_elements'',
      payload = JSON_stringify (JStr payload')\<rparr>"


text \<open>What \<^verbatim>\<open>sendData\<close> logs once the transport has answered or failed.\<close>

definition settled_event :: "js_error + string \<Rightarrow> event" where
  "settled_event outcome =
     (case outcome of
        Inr response \<Rightarrow> ConsoleLog [Str ''RPC response:'', Str response]
      | Inl error \<Rightarrow> ConsoleError [Str ''RPC call failed:'', Err error])"

text \<open>
  A page with one element that carries \<^verbatim>\<open>data-js-id="buy"\<close>. A selector with a quote
  inside the quoted identifier is not valid, and \<^verbatim>\<open>querySelector\<close> throws on it.
\<close>

definition shop_page :: "string \<Rightarrow> js_error + element option" where
  \<open>shop_page selector =
     (if selector = ''[data-js-id="buy"]'' then Inr (Some (HTMLElement 1))
      else if selector = ''[data-js-id="a"b"]''
        then Inl (JsError ''SyntaxError'' ''The string did not match the expected pattern.'')
      else Inr None)\<close>

text \<open>
  What \<^verbatim>\<open>JSON.parse\<close> returns on the payloads of the examples: four JSON texts, and
  one text that is cut off and is not JSON. The examples give this browser no other
  text. The wording of the \<^verbatim>\<open>SyntaxError\<close> is the engine's.
\<close>

definition shop_parse :: "string \<Rightarrow> js_error + json" where
  \<open>shop_parse s =
     (if s = ''null'' then Inr JNull
      else if s = ''{}'' then Inr (JObj [])
      else if s = ''{"id": "buy"}'' then Inr (JObj [(''id'', JStr ''buy'')])
      else if s = ''{"jsId": "a'' @ [CHR 0x5C, CHR 0x22] @ ''b"}''
        then Inr (JObj [(''jsId'', JStr ''a"b'')])
      else Inl (JsError ''SyntaxError'' ''Unexpected token in JSON''))\<close>

definition shop :: browser where
  "shop = \<lparr>JSON_parse = shop_parse, querySelector = shop_page\<rparr>"

definition call_with :: "string \<Rightarrow> rpc_invocation_data" where
  "call_with s = \<lparr>callerIdentity = ''agent-1'', payload = Some s\<rparr>"

text \<open>The failure envelope \<^verbatim>\<open>{ ok: false, error: msg }\<close>.\<close>

definition failure_envelope :: "string \<Rightarrow> json" where
  "failure_envelope msg = JObj [(''ok'', JBool False), (''error'', JStr msg)]"

text \<open>The value has an own property of that name.\<close>

fun has_field :: "string \<Rightarrow> json \<Rightarrow> bool" where
  "has_field k (JObj kvs) = (k \<in> fst ` set kvs)"
| "has_field k v = False"

text \<open>The waits a run made, in order, in milliseconds.\<close>

definition delays :: "event list \<Rightarrow> nat list" where
  "delays evs = concat (map (\<lambda>e. case e of SetTimeout d \<Rightarrow> [d] | _ \<Rightarrow> []) evs)"

section \<open>Properties of \<^verbatim>\<open>sendData\<close>\<close>

lemma digits_small: "n < 10 \<Longrightarrow> digits n = [digit n]"
  by (simp add: digits.simps)

lemma sendData_closed:
  "state (room i) \<noteq> ''connected'' \<Longrightarrow> sendData room i tr = Some (Inr (), tr)"
  by (subst sendData.simps) simp

lemma sendData_retry:
  assumes "state (room i) = ''connected''"
    and "findAgent (room i) = None"
  shows "sendData room i tr = sendData room (Suc i) (tr @ retry_events)"
  using assms
  by (subst sendData.simps)
     (simp add: findAgent_def retry_events_def digits_small digit_def Let_def)

lemma message_object:
  \<open>JSON_stringify (JObj [(''message'', JStr ''important data!'')]) =
     ''{"message":"important data!"}''\<close>
  by (simp add: QuoteJSONString_def quote_char_def)

lemma sendData_found:
  assumes "state (room i) = ''connected''"
    and "findAgent (room i) = Some a"
  shows "sendData room i tr =
    Some (Inr (), tr @ [RemoteParticipantsValues, PerformRpc (sendData_params a),
      settled_event (performRpc (localParticipant (room i)) (sendData_params a))])"
  using assms
  by (subst sendData.simps)
     (simp add: findAgent_def Let_def message_object sendData_params_def settled_event_def
          del: JSON_stringify.simps split: sum.splits)

lemma sendData_retries:
  assumes "\<forall>j<k. state (room (i + j)) = ''connected'' \<and> findAgent (room (i + j)) = None"
  shows "sendData room i tr = sendData room (i + k) (tr @ concat (replicate k retry_events))"
  using assms
proof (induction k arbitrary: i tr)
  case 0
  then show ?case by simp
next
  case (Suc k)
  from Suc.prems have here: "state (room i) = ''connected''" "findAgent (room i) = None"
    by (metis add.right_neutral zero_less_Suc)+
  from Suc.prems have later:
    "\<forall>j<k. state (room (Suc i + j)) = ''connected'' \<and> findAgent (room (Suc i + j)) = None"
    by (metis add_Suc_shift Suc_less_eq)
  show ?case
    using sendData_retry [of room i tr] here Suc.IH [OF later, of "tr @ retry_events"]
    by simp
qed

text \<open>A chain that ends has met a room that is not connected or a roster with an agent.\<close>

lemma sendData_ends:
  assumes "sendData room i tr = Some r"
  shows "\<exists>k. (\<forall>j<k. state (room (i + j)) = ''connected'' \<and> findAgent (room (i + j)) = None)
             \<and> \<not> (state (room (i + k)) = ''connected'' \<and> findAgent (room (i + k)) = None)"
  using assms
proof (induction rule: sendData.raw_induct [rotated 1, consumes 1])
  case (1 sendData' room i tr r)
  show ?case
  proof (cases "state (room i) = ''connected'' \<and> findAgent (room i) = None")
    case True
    with "1.hyps" obtain tr' where "sendData' room (Suc i) tr' = Some r"
      by (simp add: Let_def findAgent_def)
    from "1.IH" [OF this] obtain k where
      k: "\<forall>j<k. state (room (Suc i + j)) = ''connected'' \<and> findAgent (room (Suc i + j)) = None"
         "\<not> (state (room (Suc i + k)) = ''connected'' \<and> findAgent (room (Suc i + k)) = None)"
      by blast
    have "\<forall>j<Suc k. state (room (i + j)) = ''connected'' \<and> findAgent (room (i + j)) = None"
    proof (intro allI impI)
      fix j assume "j < Suc k"
      show "state (room (i + j)) = ''connected'' \<and> findAgent (room (i + j)) = None"
      proof (cases j)
        case 0
        with True show ?thesis by simp
      next
        case (Suc j')
        with \<open>j < Suc k\<close> k(1) show ?thesis by simp
      qed
    qed
    with k(2) show ?thesis
      by (intro exI [of _ "Suc k"]) simp
  next
    case False
    then show ?thesis
      by (intro exI [of _ 0]) simp
  qed
qed

lemma sendData_forever:
  assumes "\<forall>j. state (room (i + j)) = ''connected'' \<and> findAgent (room (i + j)) = None"
  shows "sendData room i tr = None"
proof (cases "sendData room i tr")
  case None
  then show ?thesis .
next
  case (Some r)
  from sendData_ends [OF this] assms show ?thesis by blast
qed

lemma sendData_cases:
  assumes "sendData room i tr = Some r"
  shows "\<exists>k. (\<forall>j<k. state (room (i + j)) = ''connected'' \<and> findAgent (room (i + j)) = None) \<and>
     (state (room (i + k)) \<noteq> ''connected'' \<and>
        r = (Inr (), tr @ concat (replicate k retry_events))
      \<or> state (room (i + k)) = ''connected'' \<and>
        (\<exists>a. findAgent (room (i + k)) = Some a \<and>
           r = (Inr (), tr @ concat (replicate k retry_events) @
                  [RemoteParticipantsValues, PerformRpc (sendData_params a),
                   settled_event (performRpc (localParticipant (room (i + k)))
                                    (sendData_params a))])))"
proof -
  from sendData_ends [OF assms] obtain k where
    waits: "\<forall>j<k. state (room (i + j)) = ''connected'' \<and> findAgent (room (i + j)) = None"
    and stop: "\<not> (state (room (i + k)) = ''connected'' \<and> findAgent (room (i + k)) = None)"
    by blast
  let ?tr = "tr @ concat (replicate k retry_events)"
  have chain: "sendData room i tr = sendData room (i + k) ?tr"
    by (rule sendData_retries [OF waits])
  show ?thesis
  proof (cases "state (room (i + k)) = ''connected''")
    case False
    then have "sendData room (i + k) ?tr = Some (Inr (), ?tr)"
      by (rule sendData_closed)
    with chain assms have "r = (Inr (), ?tr)" by simp
    with waits False show ?thesis by blast
  next
    case True
    with stop obtain a where a: "findAgent (room (i + k)) = Some a" by auto
    from sendData_found [where room = room and i = "i + k" and tr = ?tr, OF True a] chain assms
    have "r = (Inr (), ?tr @ [RemoteParticipantsValues, PerformRpc (sendData_params a),
                   settled_event (performRpc (localParticipant (room (i + k)))
                                    (sendData_params a))])"
      by simp
    with waits True a show ?thesis by auto
  qed
qed

lemma retry_events_no_rpc: "PerformRpc p \<notin> set (concat (replicate k retry_events))"
  by (induction k) (simp_all add: retry_events_def)

lemma never_agent_waits:
  "state (never_agent j) = ''connected'' \<and> findAgent (never_agent j) = None"
  by (simp add: never_agent_def waiting_room_def findAgent_def map_values_def peer_A_def)

lemma agent_room_agent:
  "state agent_room = ''connected'' \<and> findAgent agent_room = Some peer_B"
  by (simp add: agent_room_def findAgent_def map_values_def peer_A_def peer_B_def)

lemma waiting_room_waits:
  "state waiting_room = ''connected'' \<and> findAgent waiting_room = None"
  by (simp add: waiting_room_def findAgent_def map_values_def peer_A_def)

text \<open>
  Claim C10. When the session's connection state is anything other than
  \<^verbatim>\<open>'connected'\<close> at the moment \<^verbatim>\<open>sendData\<close> is invoked, it returns at once: the
  promise resolves and the calls made are those made before, so there is no roster scan,
  no wait and no RPC call.
\<close>
theorem sendData_not_connected:
  "state (room i) \<noteq> ''connected'' \<Longrightarrow> sendData room i tr = Some (Inr (), tr)"
  by (rule sendData_closed)

theorem sendData_not_connected_witness:
  "state (always_closed 0) \<noteq> ''connected'' \<and> sendData always_closed 0 [] = Some (Inr (), [])"
proof -
  have closed: "state (always_closed 0) \<noteq> ''connected''"
    by (simp add: always_closed_def closed_room_def)
  from sendData_not_connected [of always_closed 0 "[]", OF closed] closed
  show ?thesis by simp
qed

text \<open>
  Claim C7. Every resolution attempt reads the roster the room has at that moment: when
  the first \<open>k\<close> attempts find no agent and the next one finds the agent \<open>a\<close>, the call
  goes to \<open>a\<close> after \<open>k\<close> waits, with nothing after it but the log line of the outcome.
  With \<open>k = 1\<close> the agent has joined between attempt 1 and attempt 2, and the call is
  issued from the resolution of attempt 2 with no further retry.
\<close>
theorem sendData_agent_joins:
  assumes "\<forall>j<k. state (room (i + j)) = ''connected'' \<and> findAgent (room (i + j)) = None"
    and "state (room (i + k)) = ''connected''"
    and "findAgent (room (i + k)) = Some a"
  shows "sendData room i tr =
    Some (Inr (), tr @ concat (replicate k retry_events) @
      [RemoteParticipantsValues, PerformRpc (sendData_params a),
       settled_event (performRpc (localParticipant (room (i + k))) (sendData_params a))])"
  using sendData_retries [OF assms(1), of tr]
    sendData_found [where room = room and i = "i + k", OF assms(2,3)]
  by simp

theorem sendData_agent_joins_witness:
  "sendData agent_joins_second 0 [] =
     Some (Inr (), retry_events @
       [RemoteParticipantsValues, PerformRpc (sendData_params peer_B),
        ConsoleLog [Str ''RPC response:'', Str ''received'']])"
proof -
  have first: "\<forall>j<1. state (agent_joins_second (0 + j)) = ''connected'' \<and>
      findAgent (agent_joins_second (0 + j)) = None"
    using waiting_room_waits by (simp add: agent_joins_second_def)
  have second: "state (agent_joins_second (0 + 1)) = ''connected''"
      "findAgent (agent_joins_second (0 + 1)) = Some peer_B"
    using agent_room_agent by (simp_all add: agent_joins_second_def)
  have reply: "performRpc (localParticipant (agent_joins_second (0 + 1))) (sendData_params peer_B)
      = Inr ''received''"
    by (simp add: agent_joins_second_def agent_room_def replying_def)
  from sendData_agent_joins [OF first second, of "[]"] reply
  show ?thesis by (simp add: settled_event_def)
qed

text \<open>
  Claim C1 on the code. On a session that stays connected and never has an agent,
  \<^verbatim>\<open>sendData\<close> does not end after four resolution attempts and does not fail: it does
  not end at all. \<^verbatim>\<open>retryCount\<close> is 0 in every invocation and the recursive call passes
  no counter, so \<^verbatim>\<open>retryCount < maxRetries\<close> holds every time and the branch that gives
  up is never taken. The retries go on past the third: when the agent joins before the
  sixth attempt, the call is issued after five waits.
\<close>
theorem sendData_never_agent:
  "sendData never_agent 0 [] = None \<and>
   map_option (delays \<circ> snd) (sendData agent_joins_sixth 0 [])
     = Some [2000, 2000, 2000, 2000, 2000]"
proof -
  have forever: "sendData never_agent 0 [] = None"
    by (rule sendData_forever) (simp add: never_agent_waits)
  have waits: "\<forall>j<5. state (agent_joins_sixth (0 + j)) = ''connected'' \<and>
      findAgent (agent_joins_sixth (0 + j)) = None"
    using waiting_room_waits by (simp add: agent_joins_sixth_def)
  have sixth: "state (agent_joins_sixth (0 + 5)) = ''connected''"
      "findAgent (agent_joins_sixth (0 + 5)) = Some peer_B"
    using agent_room_agent by (simp_all add: agent_joins_sixth_def)
  have "sendData agent_joins_sixth 0 [] =
      sendData agent_joins_sixth (0 + 5) ([] @ concat (replicate 5 retry_events))"
    by (rule sendData_retries [OF waits])
  with sendData_found [where room = agent_joins_sixth and i = "0 + 5", OF sixth]
  have "map_option (delays \<circ> snd) (sendData agent_joins_sixth 0 [])
     = Some [2000, 2000, 2000, 2000, 2000]"
    by (simp add: eval_nat_numeral delays_def retry_events_def settled_event_def
          split: sum.splits)
  with forever show ?thesis by simp
qed

text \<open>
  Claim C2 on the code: with no agent at the first two resolution attempts and the agent
  there at the third, the two waits are 2000 ms and 2000 ms. The claim has 4000 ms for
  the second: the delay is \<^verbatim>\<open>retryDelay * (retryCount + 1)\<close>, and \<^verbatim>\<open>retryCount\<close> is 0
  in every invocation.
\<close>
theorem sendData_second_delay:
  "map_option (delays \<circ> snd) (sendData agent_joins_third 0 []) = Some [2000, 2000]"
proof -
  have waits: "\<forall>j<2. state (agent_joins_third (0 + j)) = ''connected'' \<and>
      findAgent (agent_joins_third (0 + j)) = None"
    using waiting_room_waits by (simp add: agent_joins_third_def)
  have third: "state (agent_joins_third (0 + 2)) = ''connected''"
      "findAgent (agent_joins_third (0 + 2)) = Some peer_B"
    using agent_room_agent by (simp_all add: agent_joins_third_def)
  have "sendData agent_joins_third 0 [] =
      sendData agent_joins_third (0 + 2) ([] @ concat (replicate 2 retry_events))"
    by (rule sendData_retries [OF waits])
  with sendData_found [where room = agent_joins_third and i = "0 + 2", OF third] show ?thesis
    by (simp add: numeral_2_eq_2 delays_def retry_events_def settled_event_def split: sum.splits)
qed

section \<open>Properties of \<^verbatim>\<open>rpc-client.ts\<close>\<close>

lemma sendDomElements_absent:
  "findAgent room = None \<Longrightarrow>
   sendDomElements room p = (Inl (JsError ''Error'' ''Agent not found''), [RemoteParticipantsValues])"
  by (simp add: sendDomElements_def)

lemma sendDomElements_present:
  "findAgent room = Some a \<Longrightarrow>
   sendDomElements room p =
     (performRpc (localParticipant room) (dom_elements_params a p),
      [RemoteParticipantsValues, PerformRpc (dom_elements_params a p)])"
  by (simp add: sendDomElements_def dom_elements_params_def Let_def del: JSON_stringify.simps)



text \<open>
  Claim C4. \<^verbatim>\<open>findAgent\<close> returns the first peer, in roster order, whose \<^verbatim>\<open>isAgent\<close>
  flag is true, and \<^verbatim>\<open>null\<close> exactly when no peer of the roster has the flag: it
  returns B on the roster of a peer A without the flag followed by a peer B with it, and
  \<^verbatim>\<open>null\<close> on the empty roster.
\<close>
theorem findAgent_first_agent:
  "(findAgent room = None \<longleftrightarrow> (\<forall>p \<in> set (map_values (remoteParticipants room)). \<not> isAgent p)) \<and>
   (findAgent room = Some p \<longleftrightarrow>
      (\<exists>i < length (map_values (remoteParticipants room)).
         map_values (remoteParticipants room) ! i = p \<and> isAgent p \<and>
         (\<forall>j<i. \<not> isAgent (map_values (remoteParticipants room) ! j)))) \<and>
   findAgent (room\<lparr>remoteParticipants := [(ka, a\<lparr>isAgent := False\<rparr>), (kb, b\<lparr>isAgent := True\<rparr>)]\<rparr>)
     = Some (b\<lparr>isAgent := True\<rparr>) \<and>
   findAgent (room\<lparr>remoteParticipants := []\<rparr>) = None"
proof (intro conjI)
  show "findAgent room = None \<longleftrightarrow>
      (\<forall>p \<in> set (map_values (remoteParticipants room)). \<not> isAgent p)"
    by (auto simp: findAgent_def find_None_iff)
  show "findAgent room = Some p \<longleftrightarrow>
      (\<exists>i < length (map_values (remoteParticipants room)).
         map_values (remoteParticipants room) ! i = p \<and> isAgent p \<and>
         (\<forall>j<i. \<not> isAgent (map_values (remoteParticipants room) ! j)))"
    unfolding findAgent_def find_Some_iff by blast
  show "findAgent (room\<lparr>remoteParticipants :=
        [(ka, a\<lparr>isAgent := False\<rparr>), (kb, b\<lparr>isAgent := True\<rparr>)]\<rparr>)
     = Some (b\<lparr>isAgent := True\<rparr>)"
    by (simp add: findAgent_def map_values_def)
  show "findAgent (room\<lparr>remoteParticipants := []\<rparr>) = None"
    by (simp add: findAgent_def map_values_def)
qed

theorem findAgent_first_agent_witness:
  "findAgent agent_room = Some peer_B \<and> findAgent closed_room = None"
proof -
  have roster: "map_values (remoteParticipants agent_room) = [peer_A, peer_B]"
    by (simp add: agent_room_def map_values_def)
  have "\<exists>i < length (map_values (remoteParticipants agent_room)).
         map_values (remoteParticipants agent_room) ! i = peer_B \<and> isAgent peer_B \<and>
         (\<forall>j<i. \<not> isAgent (map_values (remoteParticipants agent_room) ! j))"
    unfolding roster by (intro exI [of _ 1]) (simp add: peer_A_def peer_B_def)
  then have found: "findAgent agent_room = Some peer_B"
    using findAgent_first_agent [of agent_room peer_B] by blast
  have "\<forall>p \<in> set (map_values (remoteParticipants closed_room)). \<not> isAgent p"
    by (simp add: closed_room_def map_values_def)
  then have "findAgent closed_room = None"
    using findAgent_first_agent [of closed_room] by blast
  with found show ?thesis by simp
qed




lemma sendData_rpc:
  assumes "sendData room i [] = Some r" and "PerformRpc params \<in> set (snd r)"
  shows "\<exists>k a. findAgent (room (i + k)) = Some a \<and> params = sendData_params a"
proof -
  from sendData_cases [OF assms(1)] obtain k where
    "r = (Inr (), [] @ concat (replicate k retry_events)) \<or>
     (\<exists>a. findAgent (room (i + k)) = Some a \<and>
        r = (Inr (), [] @ concat (replicate k retry_events) @
                  [RemoteParticipantsValues, PerformRpc (sendData_params a),
                   settled_event (performRpc (localParticipant (room (i + k)))
                                    (sendData_params a))]))"
    by blast
  then show ?thesis
  proof
    assume "r = (Inr (), [] @ concat (replicate k retry_events))"
    with assms(2) retry_events_no_rpc [of params k] show ?thesis by simp
  next
    assume "\<exists>a. findAgent (room (i + k)) = Some a \<and>
        r = (Inr (), [] @ concat (replicate k retry_events) @
                  [RemoteParticipantsValues, PerformRpc (sendData_params a),
                   settled_event (performRpc (localParticipant (room (i + k)))
                                    (sendData_params a))])"
    then obtain a where a: "findAgent (room (i + k)) = Some a"
      and r: "r = (Inr (), [] @ concat (replicate k retry_events) @
                  [RemoteParticipantsValues, PerformRpc (sendData_params a),
                   settled_event (performRpc (localParticipant (room (i + k)))
                                    (sendData_params a))])"
      by blast
    from r assms(2) retry_events_no_rpc [of params k] have "params = sendData_params a"
      by (auto simp: settled_event_def split: sum.splits)
    with a show ?thesis by blast
  qed
qed

text \<open>
  Claim C8, as stated, fails for the \<^verbatim>\<open>dom_elements\<close> call of \<^verbatim>\<open>sendData\<close>: the
  payload given to the transport is the JSON text of an object, encoded once. It is the
  stringification of the object itself, and not the stringification of any string.
\<close>
theorem sendData_payload_counterexample:
  \<open>sendData always_agent 0 [] =
     Some (Inr (),
       [RemoteParticipantsValues,
        PerformRpc \<lparr>destinationIdentity = ''agent-1'', method = ''dom_elements'',
                    payload = ''{"message":"important data!"}''\<rparr>,
        ConsoleLog [Str ''RPC response:'', Str ''received'']]) \<and>
   ''{"message":"important data!"}'' =
     JSON_stringify (JObj [(''message'', JStr ''important data!'')]) \<and>
   (\<forall>s. ''{"message":"important data!"}'' \<noteq> JSON_stringify (JStr s))\<close>
proof -
  have here: "state (always_agent 0) = ''connected''" "findAgent (always_agent 0) = Some peer_B"
    using agent_room_agent by (simp_all add: always_agent_def)
  have reply: "performRpc (localParticipant (always_agent 0)) (sendData_params peer_B)
      = Inr ''received''"
    by (simp add: always_agent_def agent_room_def replying_def)
  from sendData_found [where room = always_agent and i = 0 and tr = "[]", OF here] reply
  have run: \<open>sendData always_agent 0 [] =
     Some (Inr (),
       [RemoteParticipantsValues,
        PerformRpc \<lparr>destinationIdentity = ''agent-1'', method = ''dom_elements'',
                    payload = ''{"message":"important data!"}''\<rparr>,
        ConsoleLog [Str ''RPC response:'', Str ''received'']])\<close>
    by (simp add: settled_event_def sendData_params_def peer_B_def)
  have other: \<open>''{"message":"important data!"}'' \<noteq> JSON_stringify (JStr s)\<close> for s
    by (simp add: QuoteJSONString_def)
  have once: \<open>''{"message":"important data!"}'' =
      JSON_stringify (JObj [(''message'', JStr ''important data!'')])\<close>
    by (rule message_object [symmetric])
  from run once other show ?thesis by blast
qed

text \<open>
  Claim C8, amended. Every call \<^verbatim>\<open>sendDomElements\<close> issues has the method name
  \<^verbatim>\<open>dom_elements\<close>, goes to the identity of the agent \<^verbatim>\<open>findAgent\<close> resolved, and
  carries the JSON stringification of the string the caller supplied: a JSON string
  literal, so a caller that supplies JSON text sends it encoded twice. Such a call is
  issued whenever there is an agent. Every call \<^verbatim>\<open>sendData\<close> issues has the same method
  name and goes to the identity of the agent resolved by one of its attempts, and
  carries the JSON text of the fixed object, encoded once.
\<close>
theorem dom_elements_payload:
  \<open>(\<forall>params. PerformRpc params \<in> set (snd (sendDomElements room p)) \<longrightarrow>
      (\<exists>a. findAgent room = Some a \<and>
           params = \<lparr>destinationIdentity = identity a, method = ''dom_elements'',
                      payload = JSON_stringify (JStr p)\<rparr>)) \<and>
   (\<forall>a. findAgent room = Some a \<longrightarrow>
      PerformRpc \<lparr>destinationIdentity = identity a, method = ''dom_elements'',
                  payload = JSON_stringify (JStr p)\<rparr> \<in> set (snd (sendDomElements room p))) \<and>
   JSON_stringify (JStr p) = CHR 0x22 # concat (map quote_char p) @ [CHR 0x22] \<and>
   (\<forall>r params. sendData rooms i [] = Some r \<and> PerformRpc params \<in> set (snd r) \<longrightarrow>
      (\<exists>k a. findAgent (rooms (i + k)) = Some a \<and>
           params = \<lparr>destinationIdentity = identity a, method = ''dom_elements'',
                      payload = ''{"message":"important data!"}''\<rparr>))\<close>
proof (intro conjI allI impI)
  fix params assume "PerformRpc params \<in> set (snd (sendDomElements room p))"
  then show "\<exists>a. findAgent room = Some a \<and>
           params = \<lparr>destinationIdentity = identity a, method = ''dom_elements'',
                      payload = JSON_stringify (JStr p)\<rparr>"
    by (cases "findAgent room")
       (simp_all add: sendDomElements_absent sendDomElements_present dom_elements_params_def
          del: JSON_stringify.simps)
next
  fix a assume "findAgent room = Some a"
  then show "PerformRpc \<lparr>destinationIdentity = identity a, method = ''dom_elements'',
                  payload = JSON_stringify (JStr p)\<rparr> \<in> set (snd (sendDomElements room p))"
    by (simp add: sendDomElements_present dom_elements_params_def del: JSON_stringify.simps)
next
  show "JSON_stringify (JStr p) = CHR 0x22 # concat (map quote_char p) @ [CHR 0x22]"
    by (simp add: QuoteJSONString_def)
next
  fix r params assume "sendData rooms i [] = Some r \<and> PerformRpc params \<in> set (snd r)"
  then have "\<exists>k a. findAgent (rooms (i + k)) = Some a \<and> params = sendData_params a"
    using sendData_rpc by blast
  then show \<open>\<exists>k a. findAgent (rooms (i + k)) = Some a \<and>
           params = \<lparr>destinationIdentity = identity a, method = ''dom_elements'',
                      payload = ''{"message":"important data!"}''\<rparr>\<close>
    by (simp add: sendData_params_def)
qed

theorem dom_elements_payload_witness:
  \<open>PerformRpc \<lparr>destinationIdentity = ''agent-1'', method = ''dom_elements'',
               payload = [CHR 0x22, CHR ''{'', CHR 0x5C, CHR 0x22, CHR ''i'', CHR ''d'',
                          CHR 0x5C, CHR 0x22, CHR '':'', CHR ''7'', CHR ''}'', CHR 0x22]\<rparr>
     \<in> set (snd (sendDomElements agent_room ''{"id":7}'')) \<and>
   (\<exists>k a. findAgent (always_agent (0 + k)) = Some a \<and>
      sendData_params peer_B =
        \<lparr>destinationIdentity = identity a, method = ''dom_elements'',
         payload = ''{"message":"important data!"}''\<rparr>)\<close>
proof -
  have present: "findAgent agent_room = Some peer_B"
    using agent_room_agent by simp
  have twice: \<open>JSON_stringify (JStr ''{"id":7}'') =
      [CHR 0x22, CHR ''{'', CHR 0x5C, CHR 0x22, CHR ''i'', CHR ''d'',
       CHR 0x5C, CHR 0x22, CHR '':'', CHR ''7'', CHR ''}'', CHR 0x22]\<close>
    by (simp add: QuoteJSONString_def quote_char_def)
  have name: "identity peer_B = ''agent-1''"
    by (simp add: peer_B_def)
  from dom_elements_payload [where room = agent_room and p = \<open>''{"id":7}''\<close>] present
  have \<open>PerformRpc \<lparr>destinationIdentity = identity peer_B, method = ''dom_elements'',
                  payload = JSON_stringify (JStr ''{"id":7}'')\<rparr>
      \<in> set (snd (sendDomElements agent_room ''{"id":7}''))\<close>
    by blast
  then have one: \<open>PerformRpc \<lparr>destinationIdentity = ''agent-1'', method = ''dom_elements'',
               payload = [CHR 0x22, CHR ''{'', CHR 0x5C, CHR 0x22, CHR ''i'', CHR ''d'',
                          CHR 0x5C, CHR 0x22, CHR '':'', CHR ''7'', CHR ''}'', CHR 0x22]\<rparr>
     \<in> set (snd (sendDomElements agent_room ''{"id":7}''))\<close>
    unfolding twice name .
  have here: "state (always_agent 0) = ''connected''" "findAgent (always_agent 0) = Some peer_B"
    using agent_room_agent by (simp_all add: always_agent_def)
  let ?r = "(Inr (), [] @ [RemoteParticipantsValues, PerformRpc (sendData_params peer_B),
      settled_event (performRpc (localParticipant (always_agent 0)) (sendData_params peer_B))])"
  have run: "sendData always_agent 0 [] = Some ?r"
    by (rule sendData_found [where room = always_agent and i = 0 and tr = "[]", OF here])
  have sent: "PerformRpc (sendData_params peer_B) \<in> set (snd ?r)"
    by simp
  from dom_elements_payload [where rooms = always_agent and i = 0] run sent
  have two: \<open>\<exists>k a. findAgent (always_agent (0 + k)) = Some a \<and>
      sendData_params peer_B =
        \<lparr>destinationIdentity = identity a, method = ''dom_elements'',
         payload = ''{"message":"important data!"}''\<rparr>\<close>
    by blast
  from one two show ?thesis by blast
qed

section \<open>Properties of the inbound handlers\<close>

lemma failure_envelope_text:
  \<open>JSON_stringify (failure_envelope msg) = ''{"ok":false,"error":'' @ QuoteJSONString msg @ ''}''\<close>
  by (simp add: failure_envelope_def QuoteJSONString_def quote_char_def)

lemma missing_jsId_text:
  \<open>JSON_stringify (JObj [(''ok'', JBool False), (''error'', JStr ''Missing jsId'')]) =
     ''{"ok":false,"error":"Missing jsId"}''\<close>
  by (simp add: QuoteJSONString_def quote_char_def)

lemma payload_jsId_absent:
  assumes "v \<noteq> JNull" and "\<not> has_field ''jsId'' v"
  shows "payload_jsId v = Inr None"
  using assms by (cases v) (simp_all add: payload_jsId_def map_of_eq_None_iff)

lemma click_button_never_throws: "\<exists>reply evs. click_button browser data = (Inr reply, evs)"
  by (cases "click_button_try browser data" rule: prod.exhaust [case_names Pair])
     (auto simp: click_button_def split: sum.splits)

lemma click_button_catch:
  assumes "click_button_try browser data = (Inl e, evs)"
  shows "click_button browser data =
     (Inr (JSON_stringify (failure_envelope (message e))),
      evs @ [ConsoleError [Str ''client.clickElement handler error:'', Err e]])"
  using assms by (simp add: click_button_def failure_envelope_def del: JSON_stringify.simps)

lemma click_button_try_parse_error:
  assumes "JSON_parse browser (case rpc_invocation_data.payload data of None \<Rightarrow> ''{}'' | Some s \<Rightarrow> s) = Inl e"
  shows "click_button_try browser data = (Inl e, [])"
  using assms by (simp add: click_button_try_def)

text \<open>
  Claim C5, as stated, fails: the payload \<^verbatim>\<open>null\<close> decodes to a value with no
  \<^verbatim>\<open>jsId\<close> field, and the reply is not the \<^verbatim>\<open>Missing jsId\<close> envelope. Reading
  \<^verbatim>\<open>payload.jsId\<close> throws, and the reply carries the message of that error.
\<close>
theorem click_button_null_counterexample:
  \<open>JSON_parse shop ''null'' = Inr JNull \<and> \<not> has_field ''jsId'' JNull \<and>
   fst (click_button shop (call_with ''null'')) =
     Inr (''{"ok":false,"error":"Cannot read properties of null (reading '' @ [CHR 0x27]
          @ ''jsId'' @ [CHR 0x27] @ '')"}'') \<and>
   fst (click_button shop (call_with ''null'')) \<noteq> Inr ''{"ok":false,"error":"Missing jsId"}''\<close>
proof -
  have parsed: "JSON_parse shop ''null'' = Inr JNull"
    by (simp add: shop_def shop_parse_def)
  then have "click_button_try shop (call_with ''null'') = (Inl (reading_null ''jsId''), [])"
    by (simp add: click_button_try_def shop_def call_with_def payload_jsId_def)
  from click_button_catch [OF this] parsed show ?thesis
    by (simp add: failure_envelope_text QuoteJSONString_def quote_char_def reading_null_def
          del: JSON_stringify.simps)
qed

text \<open>
  Claim C5, amended. For every inbound \<^verbatim>\<open>client.click_button\<close> call whose payload
  decodes to a value other than \<^verbatim>\<open>null\<close> that has no \<^verbatim>\<open>jsId\<close> field, the reply is
  exactly the \<^verbatim>\<open>Missing jsId\<close> envelope. When the payload decodes to \<^verbatim>\<open>null\<close>, the
  reply is the failure envelope with the message of the \<^verbatim>\<open>TypeError\<close> that reading the
  field throws.
\<close>
theorem click_button_missing_jsId:
  \<open>(JSON_parse browser (case rpc_invocation_data.payload data of None \<Rightarrow> ''{}'' | Some s \<Rightarrow> s) = Inr v \<and>
    v \<noteq> JNull \<and> \<not> has_field ''jsId'' v \<longrightarrow>
      click_button browser data =
        (Inr ''{"ok":false,"error":"Missing jsId"}'',
         [ConsoleWarn [Str ''client.clickElement RPC missing jsId'']])) \<and>
   (JSON_parse browser (case rpc_invocation_data.payload data of None \<Rightarrow> ''{}'' | Some s \<Rightarrow> s) = Inr JNull \<longrightarrow>
      click_button browser data =
        (Inr (''{"ok":false,"error":'' @ QuoteJSONString (message (reading_null ''jsId''))
              @ ''}''),
         [ConsoleError [Str ''client.clickElement handler error:'',
                        Err (reading_null ''jsId'')]]))\<close>
proof (intro conjI impI)
  assume "JSON_parse browser (case rpc_invocation_data.payload data of None \<Rightarrow> ''{}'' | Some s \<Rightarrow> s) = Inr v \<and>
    v \<noteq> JNull \<and> \<not> has_field ''jsId'' v"
  then have "click_button_try browser data =
      (Inr (JSON_stringify (JObj [(''ok'', JBool False), (''error'', JStr ''Missing jsId'')])),
       [ConsoleWarn [Str ''client.clickElement RPC missing jsId'']])"
    by (simp add: click_button_try_def payload_jsId_absent del: JSON_stringify.simps)
  then show \<open>click_button browser data =
        (Inr ''{"ok":false,"error":"Missing jsId"}'',
         [ConsoleWarn [Str ''client.clickElement RPC missing jsId'']])\<close>
    by (simp add: click_button_def missing_jsId_text del: JSON_stringify.simps)
next
  assume "JSON_parse browser (case rpc_invocation_data.payload data of None \<Rightarrow> ''{}'' | Some s \<Rightarrow> s) = Inr JNull"
  then have "click_button_try browser data = (Inl (reading_null ''jsId''), [])"
    by (simp add: click_button_try_def payload_jsId_def)
  from click_button_catch [OF this]
  show \<open>click_button browser data =
        (Inr (''{"ok":false,"error":'' @ QuoteJSONString (message (reading_null ''jsId''))
              @ ''}''),
         [ConsoleError [Str ''client.clickElement handler error:'',
                        Err (reading_null ''jsId'')]])\<close>
    by (simp add: failure_envelope_text del: JSON_stringify.simps)
qed

theorem click_button_missing_jsId_witness:
  \<open>click_button shop (call_with ''{"id": "buy"}'') =
     (Inr ''{"ok":false,"error":"Missing jsId"}'',
      [ConsoleWarn [Str ''client.clickElement RPC missing jsId'']]) \<and>
   click_button shop (call_with ''null'') =
     (Inr (''{"ok":false,"error":'' @ QuoteJSONString (message (reading_null ''jsId'')) @ ''}''),
      [ConsoleError [Str ''client.clickElement handler error:'', Err (reading_null ''jsId'')]])\<close>
proof -
  have parsed: \<open>JSON_parse shop
      (case rpc_invocation_data.payload (call_with ''{"id": "buy"}'') of
         None \<Rightarrow> ''{}'' | Some s \<Rightarrow> s)
      = Inr (JObj [(''id'', JStr ''buy'')])\<close>
    by (simp add: shop_def call_with_def shop_parse_def)
  have other: "JObj [(''id'', JStr ''buy'')] \<noteq> JNull \<and>
      \<not> has_field ''jsId'' (JObj [(''id'', JStr ''buy'')])"
    by simp
  have null_payload: \<open>JSON_parse shop
      (case rpc_invocation_data.payload (call_with ''null'') of None \<Rightarrow> ''{}'' | Some s \<Rightarrow> s)
      = Inr JNull\<close>
    by (simp add: shop_def call_with_def shop_parse_def)
  from click_button_missing_jsId
         [of shop \<open>call_with ''{"id": "buy"}''\<close> "JObj [(''id'', JStr ''buy'')]"]
       parsed other
  have one: \<open>click_button shop (call_with ''{"id": "buy"}'') =
     (Inr ''{"ok":false,"error":"Missing jsId"}'',
      [ConsoleWarn [Str ''client.clickElement RPC missing jsId'']])\<close>
    by blast
  from click_button_missing_jsId [of shop \<open>call_with ''null''\<close> JNull] null_payload
  have two: \<open>click_button shop (call_with ''null'') =
     (Inr (''{"ok":false,"error":'' @ QuoteJSONString (message (reading_null ''jsId'')) @ ''}''),
      [ConsoleError [Str ''client.clickElement handler error:'', Err (reading_null ''jsId'')]])\<close>
    by blast
  from one two show ?thesis by blast
qed

text \<open>
  Claim C6. No handler that \<^verbatim>\<open>registerClientRpcHandlers\<close> binds throws: whatever the
  payload, the page and \<^verbatim>\<open>JSON.parse\<close> do, it returns a string reply. An error raised
  anywhere in the body of \<^verbatim>\<open>client.click_button\<close> is caught and logged, and the reply
  is the failure envelope with \<^verbatim>\<open>ok\<close> false and the message of the error; so it is for
  a payload that is not JSON.
\<close>
theorem handlers_never_throw:
  \<open>(\<forall>(m, handler) \<in> set registerClientRpcHandlers.
      \<exists>reply evs. handler browser data = (Inr reply, evs)) \<and>
   (\<forall>e evs. click_button_try browser data = (Inl e, evs) \<longrightarrow>
      click_button browser data =
        (Inr (''{"ok":false,"error":'' @ QuoteJSONString (message e) @ ''}''),
         evs @ [ConsoleError [Str ''client.clickElement handler error:'', Err e]])) \<and>
   (\<forall>e. JSON_parse browser (case rpc_invocation_data.payload data of None \<Rightarrow> ''{}'' | Some s \<Rightarrow> s) = Inl e \<longrightarrow>
      click_button browser data =
        (Inr (''{"ok":false,"error":'' @ QuoteJSONString (message e) @ ''}''),
         [ConsoleError [Str ''client.clickElement handler error:'', Err e]]))\<close>
proof (intro conjI allI impI)
  show "\<forall>(m, handler) \<in> set registerClientRpcHandlers.
      \<exists>reply evs. handler browser data = (Inr reply, evs)"
    using click_button_never_throws [of browser data]
    by (simp add: registerClientRpcHandlers_def greet_def)
next
  fix e evs assume "click_button_try browser data = (Inl e, evs)"
  from click_button_catch [OF this]
  show \<open>click_button browser data =
        (Inr (''{"ok":false,"error":'' @ QuoteJSONString (message e) @ ''}''),
         evs @ [ConsoleError [Str ''client.clickElement handler error:'', Err e]])\<close>
    by (simp add: failure_envelope_text del: JSON_stringify.simps)
next
  fix e
  assume "JSON_parse browser (case rpc_invocation_data.payload data of None \<Rightarrow> ''{}'' | Some s \<Rightarrow> s) = Inl e"
  from click_button_catch [OF click_button_try_parse_error [OF this]]
  show \<open>click_button browser data =
        (Inr (''{"ok":false,"error":'' @ QuoteJSONString (message e) @ ''}''),
         [ConsoleError [Str ''client.clickElement handler error:'', Err e]])\<close>
    by (simp add: failure_envelope_text del: JSON_stringify.simps)
qed

theorem handlers_never_throw_witness:
  \<open>(\<exists>reply evs. greet shop (call_with ''hi'') = (Inr reply, evs)) \<and>
   click_button shop (call_with ''{"jsId": '') =
     (Inr ''{"ok":false,"error":"Unexpected token in JSON"}'',
      [ConsoleError [Str ''client.clickElement handler error:'',
                     Err (JsError ''SyntaxError'' ''Unexpected token in JSON'')]]) \<and>
   click_button shop (call_with (''{"jsId": "a'' @ [CHR 0x5C, CHR 0x22] @ ''b"}'')) =
     (Inr ''{"ok":false,"error":"The string did not match the expected pattern."}'',
      [QuerySelector ''[data-js-id="a"b"]'',
       ConsoleError [Str ''client.clickElement handler error:'',
                     Err (JsError ''SyntaxError'' ''The string did not match the expected pattern.'')]])\<close>
proof -
  have malformed: \<open>JSON_parse shop
      (case rpc_invocation_data.payload (call_with ''{"jsId": '') of None \<Rightarrow> ''{}'' | Some s \<Rightarrow> s)
      = Inl (JsError ''SyntaxError'' ''Unexpected token in JSON'')\<close>
    by (simp add: shop_def call_with_def shop_parse_def)
  have thrown: \<open>click_button_try shop (call_with (''{"jsId": "a'' @ [CHR 0x5C, CHR 0x22] @ ''b"}'')) =
      (Inl (JsError ''SyntaxError'' ''The string did not match the expected pattern.''),
       [QuerySelector ''[data-js-id="a"b"]''])\<close>
    by (simp add: click_button_try_def shop_def call_with_def shop_parse_def payload_jsId_def shop_page_def)
  from handlers_never_throw [of shop \<open>call_with ''{"jsId": ''\<close>] malformed
  have one: \<open>click_button shop (call_with ''{"jsId": '') =
     (Inr (''{"ok":false,"error":'' @ QuoteJSONString ''Unexpected token in JSON'' @ ''}''),
      [ConsoleError [Str ''client.clickElement handler error:'',
                     Err (JsError ''SyntaxError'' ''Unexpected token in JSON'')]])\<close>
    by simp
  from handlers_never_throw [of shop \<open>call_with (''{"jsId": "a'' @ [CHR 0x5C, CHR 0x22] @ ''b"}'')\<close>] thrown
  have two: \<open>click_button shop (call_with (''{"jsId": "a'' @ [CHR 0x5C, CHR 0x22] @ ''b"}'')) =
     (Inr (''{"ok":false,"error":'' @
           QuoteJSONString ''The string did not match the expected pattern.'' @ ''}''),
      [QuerySelector ''[data-js-id="a"b"]'',
       ConsoleError [Str ''client.clickElement handler error:'',
                     Err (JsError ''SyntaxError'' ''The string did not match the expected pattern.'')]])\<close>
    by simp
  have bound: "(''client.greet'', greet) \<in> set registerClientRpcHandlers"
    by (simp add: registerClientRpcHandlers_def)
  with handlers_never_throw [of shop "call_with ''hi''"]
  have zero: "\<exists>reply evs. greet shop (call_with ''hi'') = (Inr reply, evs)"
    by blast
  from zero one two show ?thesis
    by (simp add: QuoteJSONString_def quote_char_def)
qed

end
